theory Spec2Isabelle
  imports Complex_Main
begin

section \<open>Values handled by Servers.py\<close>

text \<open>
  A Python float as the JSON decoder produces it: a finite value, given exactly (every
  finite double is a rational number), minus zero, or an infinity (the decoder returns
  one for a literal such as \<^verbatim>\<open>1e400\<close>). The token \<^verbatim>\<open>NaN\<close>, which the decoder
  accepts although it is not JSON, is outside this model.
\<close>

datatype pyfloat = Finite rat | NegZero | PosInf | NegInf

text \<open>
  The decoded JSON values that Flask hands to the handlers and that the handlers put into
  their answers. A Python \<^verbatim>\<open>dict\<close> with string keys is an association list in insertion
  order, read with \<open>map_of\<close>. A JSON number without fraction and exponent is a Python
  int, any other a float.
\<close>

datatype json =
    JNull
  | JBool bool
  | JInt int
  | JFloat pyfloat
  | JStr string
  | JArr "json list"
  | JObj "(string \<times> json) list"

type_synonym dict = "(string \<times> json) list"

text \<open>
  What handling a request can raise. \<open>BadRequest\<close>, \<open>NotFound\<close>, \<open>MethodNotAllowed\<close>
  and \<open>RequestRedirect\<close> are Werkzeug's HTTP exceptions, which Flask answers with their
  own status; any other uncaught exception is answered with status 500.
\<close>

datatype error =
    BadRequest | NotFound | MethodNotAllowed | RequestRedirect
  | AttributeError | TypeError | KeyError

definition error_status :: "error \<Rightarrow> nat" where
  "error_status e =
     (case e of
        BadRequest \<Rightarrow> 400
      | NotFound \<Rightarrow> 404
      | MethodNotAllowed \<Rightarrow> 405
      | RequestRedirect \<Rightarrow> 308
      | _ \<Rightarrow> 500)"

text \<open>\<^verbatim>\<open>d.get(k, default)\<close> on a dict.\<close>

definition dict_get :: "dict \<Rightarrow> string \<Rightarrow> json \<Rightarrow> json" where
  "dict_get d k dflt = (case map_of d k of None \<Rightarrow> dflt | Some v \<Rightarrow> v)"

text \<open>
  \<^verbatim>\<open>data.get(k, default)\<close> on whatever \<^verbatim>\<open>request.get_json()\<close> returned: only a dict has
  the method, every other value raises AttributeError.
\<close>

definition json_get :: "json \<Rightarrow> string \<Rightarrow> json \<Rightarrow> error + json" where
  "json_get v k dflt = (case v of JObj d \<Rightarrow> Inr (dict_get d k dflt) | _ \<Rightarrow> Inl AttributeError)"

text \<open>
  The keys of the \<^verbatim>\<open>users\<close> dict. Python compares keys with \<^verbatim>\<open>==\<close>, which compares
  booleans, ints and floats by their numeric value: \<^verbatim>\<open>True == 1 == 1.0\<close>,
  \<^verbatim>\<open>False == 0 == 0.0 == -0.0\<close>. A list or a dict is unhashable and raises TypeError
  when used as a key or looked up.
\<close>

datatype hkey = KNone | KNum rat | KInf bool | KStr string

fun float_key :: "pyfloat \<Rightarrow> hkey" where
  "float_key (Finite q) = KNum q"
| "float_key NegZero = KNum 0"
| "float_key PosInf = KInf True"
| "float_key NegInf = KInf False"

fun py_hash_key :: "json \<Rightarrow> error + hkey" where
  "py_hash_key JNull = Inr KNone"
| "py_hash_key (JBool b) = Inr (KNum (if b then 1 else 0))"
| "py_hash_key (JInt i) = Inr (KNum (of_int i))"
| "py_hash_key (JFloat f) = Inr (float_key f)"
| "py_hash_key (JStr s) = Inr (KStr s)"
| "py_hash_key (JArr xs) = Inl TypeError"
| "py_hash_key (JObj d) = Inl TypeError"

text \<open>Decimal digits of a natural number, for \<^verbatim>\<open>str\<close> of an int.\<close>

function show_nat :: "nat \<Rightarrow> string" where
  "show_nat n =
     (if n < 10 then [char_of (48 + n)]
      else show_nat (n div 10) @ [char_of (48 + n mod 10)])"
  by pat_completeness auto
termination
  by (relation "measure (\<lambda>n. n)") auto

declare show_nat.simps [simp del]

text \<open>
  What an f-string prints for a value: a str is printed as it is, \<^verbatim>\<open>None\<close>, booleans and
  ints by their Python names and digits. The text Python prints for a float, a list or
  a dict is taken as the parameter \<open>container_str\<close>.
\<close>

definition py_str :: "(json \<Rightarrow> string) \<Rightarrow> json \<Rightarrow> string" where
  "py_str container_str v =
     (case v of
        JStr s \<Rightarrow> s
      | JNull \<Rightarrow> ''None''
      | JBool b \<Rightarrow> (if b then ''True'' else ''False'')
      | JInt i \<Rightarrow> (if i < 0 then CHR ''-'' # show_nat (nat (- i)) else show_nat (nat i))
      | _ \<Rightarrow> container_str v)"

text \<open>
  \<^verbatim>\<open>s.replace(old, new)\<close>: every occurrence of \<open>old\<close>, left to right and without
  overlap, becomes \<open>new\<close>. With an empty \<open>old\<close> Python puts \<open>new\<close> around every
  character.
\<close>

fun py_replace :: "string \<Rightarrow> string \<Rightarrow> string \<Rightarrow> string" where
  "py_replace old new [] = (if old = [] then new else [])"
| "py_replace old new (c # cs) =
     (if old = [] then new @ c # py_replace old new cs
      else if take (length old) (c # cs) = old
        then new @ py_replace old new (drop (length old - 1) cs)
      else c # py_replace old new cs)"

text \<open>\<^verbatim>\<open>old in s\<close>: the string \<open>old\<close> occurs somewhere in \<open>s\<close>.\<close>

fun occurs :: "string \<Rightarrow> string \<Rightarrow> bool" where
  "occurs old [] = (old = [])"
| "occurs old (c # cs) = (take (length old) (c # cs) = old \<or> occurs old cs)"

section \<open>Requests, the clock and the two stores\<close>

datatype http_method = GET | POST | PUT | DELETE | PATCH

text \<open>
  The body as the login handler sees it: \<open>NoJson\<close> when \<^verbatim>\<open>request.is_json\<close> is false
  (the content type is not a JSON one, which is also the case of a request with no body
  and no content type), \<open>BadJson\<close> when the content type is JSON and the bytes do not
  parse, so that \<^verbatim>\<open>request.get_json()\<close> raises BadRequest, and \<open>Json v\<close> when they parse
  to \<open>v\<close>.
\<close>

datatype req_body = NoJson | BadJson | Json json

record request =
  req_method :: http_method
  authorization :: "string option"
  req_body :: req_body

text \<open>
  One reading of \<^verbatim>\<open>datetime.now()\<close>, by the two texts the program takes from it: the
  digits an f-string prints for \<^verbatim>\<open>.timestamp()\<close> and the result of \<^verbatim>\<open>.isoformat()\<close>.
  A clock gives the reading of the n-th call of \<^verbatim>\<open>datetime.now()\<close> made while one
  request is handled.
\<close>

record datetime =
  timestamp_str :: string
  isoformat :: string

type_synonym clock = "nat \<Rightarrow> datetime"

text \<open>The module-level dicts \<^verbatim>\<open>users\<close> and \<^verbatim>\<open>sessions\<close>.\<close>

record store =
  users :: "hkey \<rightharpoonup> dict"
  sessions :: "string \<rightharpoonup> dict"

definition empty_store :: store where
  "empty_store = \<lparr>users = Map.empty, sessions = Map.empty\<rparr>"

record response =
  http_status :: nat
  json_body :: dict

section \<open>The response builder\<close>

text \<open>
  \<^verbatim>\<open>create_response(success, data, message)\<close>. Every caller passes \<^verbatim>\<open>None\<close> or a dict
  as \<open>data\<close>, and \<^verbatim>\<open>if data:\<close> is false for \<^verbatim>\<open>None\<close> and for the empty dict. The
  first argument is the reading of the clock taken inside the function.
\<close>

definition create_response :: "datetime \<Rightarrow> bool \<Rightarrow> dict option \<Rightarrow> string \<Rightarrow> dict" where
  "create_response now success data message =
     [(''success'', JBool success),
      (''timestamp'', JStr (isoformat now)),
      (''message'', JStr message)] @
     (case data of
        None \<Rightarrow> []
      | Some d \<Rightarrow> if d \<noteq> [] then [(''data'', JObj d)] else [])"

definition ok :: "dict \<Rightarrow> error + response" where
  "ok b = Inr \<lparr>http_status = 200, json_body = b\<rparr>"

definition unauthorized :: "dict \<Rightarrow> error + response" where
  "unauthorized b = Inr \<lparr>http_status = 401, json_body = b\<rparr>"

section \<open>The handlers\<close>

text \<open>
  A handler takes the clock, the request and the store, and returns the store it leaves
  behind with either the exception it raised or its response. \<^verbatim>\<open>log_request()\<close> only
  writes to the logger and catches what it raises itself, so it is left out.
\<close>

type_synonym handler_result = "store \<times> (error + response)"

definition home :: "clock \<Rightarrow> request \<Rightarrow> store \<Rightarrow> handler_result" where
  "home now req st =
     (st, ok (create_response (now 0) True None ''Wibble Wobble Private Server - Running''))"

definition health :: "clock \<Rightarrow> request \<Rightarrow> store \<Rightarrow> handler_result" where
  "health now req st = (st, ok (create_response (now 0) True None ''Server is running''))"

text \<open>Line 81: \<^verbatim>\<open>request.get_json() if request.is_json else {}\<close>.\<close>

definition request_data :: "req_body \<Rightarrow> error + json" where
  "request_data b = (case b of NoJson \<Rightarrow> Inr (JObj []) | BadJson \<Rightarrow> Inl BadRequest | Json v \<Rightarrow> Inr v)"

text \<open>Lines 81 to 85: the pair \<open>(device_id, user_id)\<close> read from the body.\<close>

definition login_ids :: "req_body \<Rightarrow> error + (json \<times> json)" where
  "login_ids b =
     (case request_data b of
        Inl e \<Rightarrow> Inl e
      | Inr data \<Rightarrow>
          (case json_get data ''device_id'' (JStr ''unknown'') of
             Inl e \<Rightarrow> Inl e
           | Inr device_id \<Rightarrow>
               (case json_get data ''user_id'' device_id of
                  Inl e \<Rightarrow> Inl e
                | Inr user_id \<Rightarrow> Inr (device_id, user_id))))"

definition new_session :: "json \<Rightarrow> json \<Rightarrow> datetime \<Rightarrow> dict" where
  "new_session user_id device_id now =
     [(''user_id'', user_id), (''device_id'', device_id), (''created_at'', JStr (isoformat now))]"

definition new_user :: "json \<Rightarrow> json \<Rightarrow> datetime \<Rightarrow> dict" where
  "new_user user_id device_id now =
     [(''user_id'', user_id), (''device_id'', device_id), (''created_at'', JStr (isoformat now)),
      (''level'', JInt 1), (''coins'', JInt 1000), (''yokai'', JArr [])]"

definition login_response :: "datetime \<Rightarrow> string \<Rightarrow> dict \<Rightarrow> error + response" where
  "login_response now session_token user =
     ok (create_response now True
           (Some [(''session_token'', JStr session_token), (''user'', JObj user)])
           ''Login successful'')"

text \<open>
  \<^verbatim>\<open>login()\<close>. The session is stored (line 89) before \<^verbatim>\<open>user_id not in users\<close> hashes
  the user id (line 96), so a TypeError raised there leaves the new session in the store.
  The clock is read for the token, for the session, for a new user and in the response
  builder, in this order.
\<close>

definition login :: "(json \<Rightarrow> string) \<Rightarrow> clock \<Rightarrow> request \<Rightarrow> store \<Rightarrow> handler_result" where
  "login container_str now req st =
     (case login_ids (req_body req) of
        Inl e \<Rightarrow> (st, Inl e)
      | Inr (device_id, user_id) \<Rightarrow>
          let session_token =
                ''session_'' @ py_str container_str user_id @ ''_'' @ timestamp_str (now 0);
              st1 = st\<lparr>sessions :=
                      (sessions st)(session_token \<mapsto> new_session user_id device_id (now 1))\<rparr>
          in (case py_hash_key user_id of
                Inl e \<Rightarrow> (st1, Inl e)
              | Inr k \<Rightarrow>
                  (case users st1 k of
                     None \<Rightarrow>
                       let u = new_user user_id device_id (now 2);
                           st2 = st1\<lparr>users := (users st1)(k \<mapsto> u)\<rparr>
                       in (st2, login_response (now 3) session_token u)
                   | Some u \<Rightarrow> (st1, login_response (now 2) session_token u))))"

text \<open>
  Lines 121 and 164:
  \<^verbatim>\<open>request.headers.get('Authorization', '').replace('Bearer ', '')\<close>.
\<close>

definition auth_token :: "request \<Rightarrow> string" where
  "auth_token req =
     py_replace ''Bearer '' [] (case authorization req of None \<Rightarrow> [] | Some h \<Rightarrow> h)"

text \<open>
  \<^verbatim>\<open>users.get(session_data['user_id'], {})\<close>: a session dict without the key raises
  KeyError, an unhashable user id raises TypeError.
\<close>

definition session_user :: "store \<Rightarrow> dict \<Rightarrow> error + dict" where
  "session_user st session_data =
     (case map_of session_data ''user_id'' of
        None \<Rightarrow> Inl KeyError
      | Some user_id \<Rightarrow>
          (case py_hash_key user_id of
             Inl e \<Rightarrow> Inl e
           | Inr k \<Rightarrow> Inr (case users st k of None \<Rightarrow> [] | Some u \<Rightarrow> u)))"

definition session :: "clock \<Rightarrow> request \<Rightarrow> store \<Rightarrow> handler_result" where
  "session now req st =
     (case sessions st (auth_token req) of
        Some session_data \<Rightarrow>
          (case session_user st session_data of
             Inl e \<Rightarrow> (st, Inl e)
           | Inr user_data \<Rightarrow>
               (st, ok (create_response (now 0) True
                          (Some [(''session'', JObj session_data), (''user'', JObj user_data)])
                          [])))
      | None \<Rightarrow> (st, unauthorized (create_response (now 0) False None ''Invalid session'')))"

definition game_start :: "clock \<Rightarrow> request \<Rightarrow> store \<Rightarrow> handler_result" where
  "game_start now req st =
     (st, ok (create_response (now 0) True
                (Some [(''stage_id'', JInt 1), (''difficulty'', JStr ''normal'')]) []))"

definition user_profile :: "clock \<Rightarrow> request \<Rightarrow> store \<Rightarrow> handler_result" where
  "user_profile now req st =
     (case sessions st (auth_token req) of
        Some session_data \<Rightarrow>
          (case session_user st session_data of
             Inl e \<Rightarrow> (st, Inl e)
           | Inr user_data \<Rightarrow> (st, ok (create_response (now 0) True (Some user_data) [])))
      | None \<Rightarrow> (st, unauthorized (create_response (now 0) False None ''Unauthorized'')))"

definition catch_all :: "clock \<Rightarrow> request \<Rightarrow> string \<Rightarrow> store \<Rightarrow> handler_result" where
  "catch_all now req path st =
     (st, ok (create_response (now 0) True (Some [])
                (''Endpoint /'' @ path @ '' - under development'')))"

text \<open>What a test reads from a response.\<close>

definition resp_field :: "response \<Rightarrow> string \<Rightarrow> json option" where
  "resp_field r k = map_of (json_body r) k"

definition data_field :: "response \<Rightarrow> string \<Rightarrow> json option" where
  "data_field r k =
     (case map_of (json_body r) ''data'' of Some (JObj d) \<Rightarrow> map_of d k | _ \<Rightarrow> None)"

text \<open>
  A handler call: the endpoint the route table chose (the catch-all with the path it
  matched), the clock during the call and the request.
\<close>

datatype endpoint = Home | Health | Login | Session | GameStart | UserProfile | CatchAll string

definition handle ::
  "(json \<Rightarrow> string) \<Rightarrow> endpoint \<Rightarrow> clock \<Rightarrow> request \<Rightarrow> store \<Rightarrow> handler_result" where
  "handle container_str ep now req st =
     (case ep of
        Home \<Rightarrow> home now req st
      | Health \<Rightarrow> health now req st
      | Login \<Rightarrow> login container_str now req st
      | Session \<Rightarrow> session now req st
      | GameStart \<Rightarrow> game_start now req st
      | UserProfile \<Rightarrow> user_profile now req st
      | CatchAll path \<Rightarrow> catch_all now req path st)"

text \<open>
  The store after a sequence of handler calls. An exception ends the call that raised
  it, not the server: the store it left behind is the one the next call finds.
\<close>

fun run :: "(json \<Rightarrow> string) \<Rightarrow> (endpoint \<times> clock \<times> request) list \<Rightarrow> store \<Rightarrow> store" where
  "run container_str [] st = st"
| "run container_str ((ep, now, req) # calls) st =
     run container_str calls (fst (handle container_str ep now req st))"

text \<open>No login of the sequence raised TypeError.\<close>

fun no_login_type_error ::
  "(json \<Rightarrow> string) \<Rightarrow> (endpoint \<times> clock \<times> request) list \<Rightarrow> store \<Rightarrow> bool" where
  "no_login_type_error container_str [] st = True"
| "no_login_type_error container_str ((ep, now, req) # calls) st =
     (\<not> (ep = Login \<and> snd (handle container_str ep now req st) = Inl TypeError) \<and>
      no_login_type_error container_str calls (fst (handle container_str ep now req st)))"

section \<open>The route table\<close>









section \<open>Properties of the stores\<close>

text \<open>Every session's user id is a key of \<^verbatim>\<open>users\<close>.\<close>

definition sessions_have_users :: "store \<Rightarrow> bool" where
  "sessions_have_users st =
     (\<forall>tok sd. sessions st tok = Some sd \<longrightarrow>
        (\<exists>uid k. map_of sd ''user_id'' = Some uid \<and> py_hash_key uid = Inr k \<and> users st k \<noteq> None))"

text \<open>Every user record is stored under the key of its own \<^verbatim>\<open>user_id\<close> field.\<close>

definition users_keyed :: "store \<Rightarrow> bool" where
  "users_keyed st =
     (\<forall>k u. users st k = Some u \<longrightarrow>
        (\<exists>uid. map_of u ''user_id'' = Some uid \<and> py_hash_key uid = Inr k))"

text \<open>
  The id a login body asks for, in the words of the specification: the body's
  \<^verbatim>\<open>user_id\<close>, else its \<^verbatim>\<open>device_id\<close>, else the literal "unknown".
\<close>

definition requested_user_id :: "dict \<Rightarrow> json" where
  "requested_user_id d =
     (case map_of d ''user_id'' of
        Some v \<Rightarrow> v
      | None \<Rightarrow> (case map_of d ''device_id'' of Some v \<Rightarrow> v | None \<Rightarrow> JStr ''unknown''))"

text \<open>
  The token extraction in the words of the specification: one leading "Bearer " is
  stripped when the header starts with it, any other header is the token as it is.
\<close>

definition spec_strip_bearer_prefix :: "string \<Rightarrow> string" where
  "spec_strip_bearer_prefix h = (if take 7 h = ''Bearer '' then drop 7 h else h)"

section \<open>Concrete requests and clocks for the closed examples\<close>

definition fixed_clock :: "string \<Rightarrow> string \<Rightarrow> clock" where
  "fixed_clock ts iso_text n = \<lparr>timestamp_str = ts, isoformat = iso_text\<rparr>"

definition clock_a :: clock where
  "clock_a = fixed_clock ''1700000000.5'' ''2023-11-14T22:13:20.500000''"

definition clock_b :: clock where
  "clock_b = fixed_clock ''1700000001.25'' ''2023-11-14T22:13:21.250000''"

definition post_json :: "json \<Rightarrow> request" where
  "post_json v = \<lparr>req_method = POST, authorization = None, req_body = Json v\<rparr>"

definition post_bad_json :: request where
  "post_bad_json = \<lparr>req_method = POST, authorization = None, req_body = BadJson\<rparr>"

definition post_no_json :: request where
  "post_no_json = \<lparr>req_method = POST, authorization = None, req_body = NoJson\<rparr>"

definition get_with :: "string option \<Rightarrow> request" where
  "get_with h = \<lparr>req_method = GET, authorization = h, req_body = NoJson\<rparr>"

text \<open>What Python prints for the empty list and the empty dict.\<close>

definition empty_container_str :: "json \<Rightarrow> string" where
  "empty_container_str v = (case v of JObj d \<Rightarrow> ''{}'' | _ \<Rightarrow> ''[]'')"

definition login_p1 :: handler_result where
  "login_p1 =
     login empty_container_str clock_a (post_json (JObj [(''user_id'', JStr ''p1'')])) empty_store"

definition login_bearer :: handler_result where
  "login_bearer =
     login empty_container_str clock_a (post_json (JObj [(''user_id'', JStr ''Bearer x'')]))
       empty_store"

definition login_one :: handler_result where
  "login_one =
     login empty_container_str clock_a (post_json (JObj [(''user_id'', JInt 1)])) empty_store"

text \<open>What Python prints for the float 1.0.\<close>

definition float_one_str :: "json \<Rightarrow> string" where
  "float_one_str v = ''1.0''"

definition login_float_one :: handler_result where
  "login_float_one =
     login float_one_str clock_a (post_json (JObj [(''user_id'', JFloat (Finite 1))])) empty_store"

definition put_request :: request where
  "put_request = \<lparr>req_method = PUT, authorization = None, req_body = NoJson\<rparr>"

definition mixed_calls :: "(endpoint \<times> clock \<times> request) list" where
  "mixed_calls =
     [(Login, clock_a, post_bad_json),
      (Login, clock_a, post_json (JObj [(''user_id'', JStr ''p1'')])),
      (Session, clock_b, get_with (Some ''Bearer session_p1_1700000000.5''))]"

definition crashed_login_calls :: "(endpoint \<times> clock \<times> request) list" where
  "crashed_login_calls =
     [(Login, clock_a, post_json (JObj [(''user_id'', JArr [])])), (Home, clock_b, get_with None)]"

lemmas example_defs =
  clock_a_def clock_b_def fixed_clock_def post_json_def post_bad_json_def post_no_json_def
  get_with_def put_request_def empty_container_str_def empty_store_def

lemmas handler_defs =
  login_def login_ids_def request_data_def json_get_def dict_get_def py_str_def
  new_session_def new_user_def login_response_def ok_def unauthorized_def create_response_def
  session_def user_profile_def session_user_def auth_token_def Let_def

section \<open>Strings and the login handler\<close>

lemma py_replace_absent:
  "old \<noteq> [] \<Longrightarrow> \<not> occurs old s \<Longrightarrow> py_replace old new s = s"
  by (induction s) auto

lemma py_replace_prefix:
  "old \<noteq> [] \<Longrightarrow> py_replace old new (old @ s) = new @ py_replace old new s"
  by (cases old) auto

lemma auth_token_bearer:
  assumes "authorization req = Some (''Bearer '' @ tok)" and "\<not> occurs ''Bearer '' tok"
  shows "auth_token req = tok"
proof -
  have "py_replace ''Bearer '' [] (''Bearer '' @ tok) = py_replace ''Bearer '' [] tok"
    using py_replace_prefix [of "''Bearer ''" "[]" tok] by simp
  also have "\<dots> = tok"
    using assms(2) by (simp add: py_replace_absent)
  finally show ?thesis
    using assms(1) by (simp add: auth_token_def)
qed

lemma auth_token_raw:
  assumes "authorization req = Some tok" and "\<not> occurs ''Bearer '' tok"
  shows "auth_token req = tok"
  using assms by (simp add: auth_token_def py_replace_absent)

lemma login_returns:
  assumes "login cs now req st = (st1, Inr r)"
  shows "\<exists>device_id user_id k u tok n.
           login_ids (req_body req) = Inr (device_id, user_id) \<and>
           py_hash_key user_id = Inr k \<and>
           tok = ''session_'' @ py_str cs user_id @ ''_'' @ timestamp_str (now 0) \<and>
           sessions st1 = (sessions st)(tok \<mapsto> new_session user_id device_id (now 1)) \<and>
           users st1 = (users st)(k \<mapsto> u) \<and>
           u = (case users st k of None \<Rightarrow> new_user user_id device_id (now 2) | Some u' \<Rightarrow> u') \<and>
           login_response (now n) tok u = Inr r"
  using assms
  by (auto simp: login_def Let_def split: sum.splits prod.splits option.splits)

lemma login_response_fields:
  assumes "login_response t tok u = Inr r"
  shows "http_status r = 200"
    and "resp_field r ''success'' = Some (JBool True)"
    and "resp_field r ''message'' = Some (JStr ''Login successful'')"
    and "data_field r ''session_token'' = Some (JStr tok)"
    and "data_field r ''user'' = Some (JObj u)"
  using assms
  by (auto simp: login_response_def ok_def create_response_def resp_field_def data_field_def)

lemma login_succeeds:
  assumes "login_ids (req_body req) = Inr (device_id, user_id)"
    and "py_hash_key user_id = Inr k"
  shows "\<exists>st' r. login cs now req st = (st', Inr r)"
  using assms
  by (cases "users st k") (simp_all add: login_def Let_def login_response_def ok_def)

lemma float_key_inv:
  "(f = PosInf \<and> float_key f = KInf True) \<or> (f = NegInf \<and> float_key f = KInf False) \<or>
   (\<exists>q. float_key f = KNum q)"
  by (cases f) auto

lemma py_hash_key_inv:
  assumes "py_hash_key a = Inr k"
  shows "(a = JNull \<and> k = KNone) \<or> (\<exists>s. a = JStr s \<and> k = KStr s) \<or>
         (a = JFloat PosInf \<and> k = KInf True) \<or> (a = JFloat NegInf \<and> k = KInf False) \<or>
         (\<exists>q. k = KNum q)"
proof (cases a)
  case (JFloat f)
  with assms float_key_inv [of f] show ?thesis by auto
qed (use assms in auto)

lemma py_hash_key_same:
  assumes "py_hash_key a = Inr k" and "py_hash_key b = Inr k"
  shows "a = b \<or> (\<exists>q. k = KNum q)"
  using py_hash_key_inv [OF assms(1)] py_hash_key_inv [OF assms(2)] by auto

lemma py_hash_key_error:
  "py_hash_key a = Inl e \<Longrightarrow> e = TypeError"
  by (cases a) auto

lemma login_raises:
  "login cs now req st = (st', Inl e) \<Longrightarrow> e = TypeError \<or> st' = st"
  by (auto simp: login_def Let_def login_response_def ok_def
           split: sum.splits prod.splits option.splits dest: py_hash_key_error)



lemma login_ids_requested:
  assumes "login_ids b = Inr (device_id, user_id)"
  shows "(b = NoJson \<and> user_id = requested_user_id []) \<or>
         (\<exists>d. b = Json (JObj d) \<and> user_id = requested_user_id d)"
  using assms
  by (auto simp: login_ids_def request_data_def json_get_def dict_get_def requested_user_id_def
           split: req_body.splits json.splits option.splits)

lemma login_users:
  "users (fst (login cs now req st)) = users st \<or>
   (\<exists>device_id user_id k. py_hash_key user_id = Inr k \<and> users st k = None \<and>
      users (fst (login cs now req st)) = (users st)(k \<mapsto> new_user user_id device_id (now 2)))"
  by (auto simp: login_def Let_def split: sum.splits prod.splits option.splits)

lemma handle_other_store:
  "ep \<noteq> Login \<Longrightarrow> fst (handle cs ep now req st) = st"
  by (cases ep)
     (auto simp: handle_def home_def health_def session_def game_start_def user_profile_def
                 catch_all_def split: option.splits sum.splits)

section \<open>The response builder\<close>

text \<open>
  C9. For every success flag, message and data argument the builder returns an object
  with the fields success, timestamp (the clock's ISO-8601 text) and message, in this
  order, and with the field data exactly when the data argument is neither \<^verbatim>\<open>None\<close>
  nor the empty dict; the field then holds the argument.
\<close>

theorem create_response_fields:
  "map fst (create_response now success data message) =
     [''success'', ''timestamp'', ''message''] @
       (if data \<noteq> None \<and> data \<noteq> Some [] then [''data''] else []) \<and>
   map_of (create_response now success data message) ''success'' = Some (JBool success) \<and>
   map_of (create_response now success data message) ''timestamp'' = Some (JStr (isoformat now)) \<and>
   map_of (create_response now success data message) ''message'' = Some (JStr message) \<and>
   map_of (create_response now success data message) ''data'' =
     (case data of None \<Rightarrow> None | Some d \<Rightarrow> if d = [] then None else Some (JObj d))"
  by (simp add: create_response_def split: option.splits)

section \<open>The catch-all route\<close>





section \<open>The protected routes\<close>

text \<open>
  When the token the handler extracts from the Authorization header is not a key of
  \<^verbatim>\<open>sessions\<close>, both protected routes answer 401 and leave the store unchanged.
\<close>

lemma unknown_token_rejected:
  assumes "sessions st (auth_token req) = None"
  shows "(\<exists>r. session now req st = (st, Inr r) \<and> http_status r = 401 \<and>
             resp_field r ''success'' = Some (JBool False) \<and>
             resp_field r ''message'' = Some (JStr ''Invalid session'')) \<and>
         (\<exists>r. user_profile now req st = (st, Inr r) \<and> http_status r = 401 \<and>
             resp_field r ''success'' = Some (JBool False) \<and>
             resp_field r ''message'' = Some (JStr ''Unauthorized''))"
  using assms
  by (simp add: session_def user_profile_def unauthorized_def create_response_def resp_field_def)

text \<open>
  A token that is not a key of \<^verbatim>\<open>sessions\<close> and holds no "Bearer " is answered 401
  by both protected routes, whether it is sent after "Bearer " or as the raw header.
\<close>

lemma plain_unknown_token_rejected:
  assumes "sessions st tok = None" and "\<not> occurs ''Bearer '' tok"
    and "authorization req = Some (''Bearer '' @ tok) \<or> authorization req = Some tok"
  shows "(\<exists>r. session now req st = (st, Inr r) \<and> http_status r = 401 \<and>
             resp_field r ''success'' = Some (JBool False) \<and>
             resp_field r ''message'' = Some (JStr ''Invalid session'')) \<and>
         (\<exists>r. user_profile now req st = (st, Inr r) \<and> http_status r = 401 \<and>
             resp_field r ''success'' = Some (JBool False) \<and>
             resp_field r ''message'' = Some (JStr ''Unauthorized''))"
proof -
  have "auth_token req = tok"
    using assms(2,3) by (auto simp: auth_token_bearer auth_token_raw)
  with assms(1) have "sessions st (auth_token req) = None"
    by simp
  then show ?thesis
    by (rule unknown_token_rejected)
qed

theorem plain_unknown_token_rejected_witness:
  "sessions (fst login_p1) ''session_p2_1700000000.5'' = None \<and>
   \<not> occurs ''Bearer '' ''session_p2_1700000000.5'' \<and>
   (\<exists>r. session clock_b (get_with (Some ''Bearer session_p2_1700000000.5'')) (fst login_p1)
          = (fst login_p1, Inr r) \<and> http_status r = 401 \<and>
        resp_field r ''success'' = Some (JBool False) \<and>
        resp_field r ''message'' = Some (JStr ''Invalid session'')) \<and>
   (\<exists>r. user_profile clock_b (get_with (Some ''Bearer session_p2_1700000000.5'')) (fst login_p1)
          = (fst login_p1, Inr r) \<and> http_status r = 401 \<and>
        resp_field r ''success'' = Some (JBool False) \<and>
        resp_field r ''message'' = Some (JStr ''Unauthorized''))"
proof -
  have a: "sessions (fst login_p1) ''session_p2_1700000000.5'' = None"
    by (simp add: login_p1_def handler_defs example_defs)
  have o: "\<not> occurs ''Bearer '' ''session_p2_1700000000.5''"
    by simp
  have h: "authorization (get_with (Some ''Bearer session_p2_1700000000.5''))
             = Some (''Bearer '' @ ''session_p2_1700000000.5'') \<or>
           authorization (get_with (Some ''Bearer session_p2_1700000000.5''))
             = Some ''session_p2_1700000000.5''"
    by (simp add: get_with_def)
  from plain_unknown_token_rejected [OF a o h, of clock_b] a o show ?thesis
    by simp
qed

text \<open>
  C5. The claim is that a token never issued by a login is answered 401 by both
  protected routes. After the single login of "p1" the only key of \<^verbatim>\<open>sessions\<close> is
  "session_p1_1700000000.5"; the token "sessBearer ion_p1_1700000000.5" was never
  issued, yet sent after "Bearer " it is answered 200 with \<^verbatim>\<open>success = true\<close> by the
  session check and by the user profile, and so is the raw token by the session check,
  because the extraction removes the "Bearer " inside it.
\<close>

theorem never_issued_token_accepted:
  "dom (sessions (fst login_p1)) = {''session_p1_1700000000.5''} \<and>
   sessions (fst login_p1) ''sessBearer ion_p1_1700000000.5'' = None \<and>
   session clock_b (get_with (Some ''Bearer sessBearer ion_p1_1700000000.5'')) (fst login_p1)
     = (fst login_p1,
        ok (create_response (clock_b 0) True
              (Some [(''session'', JObj (new_session (JStr ''p1'') (JStr ''unknown'') (clock_a 1))),
                     (''user'', JObj (new_user (JStr ''p1'') (JStr ''unknown'') (clock_a 2)))])
              [])) \<and>
   session clock_b (get_with (Some ''sessBearer ion_p1_1700000000.5'')) (fst login_p1)
     = (fst login_p1,
        ok (create_response (clock_b 0) True
              (Some [(''session'', JObj (new_session (JStr ''p1'') (JStr ''unknown'') (clock_a 1))),
                     (''user'', JObj (new_user (JStr ''p1'') (JStr ''unknown'') (clock_a 2)))])
              [])) \<and>
   user_profile clock_b (get_with (Some ''Bearer sessBearer ion_p1_1700000000.5'')) (fst login_p1)
     = (fst login_p1,
        ok (create_response (clock_b 0) True
              (Some (new_user (JStr ''p1'') (JStr ''unknown'') (clock_a 2))) []))"
  by (simp add: login_p1_def handler_defs example_defs)




section \<open>The token extraction\<close>

text \<open>
  Where the extraction agrees with the specification: when what is left after stripping
  one leading "Bearer " holds no further "Bearer ".
\<close>

lemma auth_token_spec:
  assumes "authorization req = Some h"
    and "\<not> occurs ''Bearer '' (spec_strip_bearer_prefix h)"
  shows "auth_token req = spec_strip_bearer_prefix h"
proof (cases "take 7 h = ''Bearer ''")
  case True
  then have "h = ''Bearer '' @ drop 7 h"
    by (metis append_take_drop_id)
  with assms True show ?thesis
    by (simp add: spec_strip_bearer_prefix_def auth_token_bearer)
next
  case False
  with assms show ?thesis
    by (simp add: spec_strip_bearer_prefix_def auth_token_raw)
qed

theorem auth_token_spec_witness:
  "authorization (get_with (Some ''Bearer abc'')) = Some ''Bearer abc'' \<and>
   \<not> occurs ''Bearer '' (spec_strip_bearer_prefix ''Bearer abc'') \<and>
   auth_token (get_with (Some ''Bearer abc'')) = ''abc''"
proof -
  have a: "authorization (get_with (Some ''Bearer abc'')) = Some ''Bearer abc''"
    by (simp add: get_with_def)
  have o: "\<not> occurs ''Bearer '' (spec_strip_bearer_prefix ''Bearer abc'')"
    by (simp add: spec_strip_bearer_prefix_def)
  from auth_token_spec [OF a o] a o show ?thesis
    by (simp add: spec_strip_bearer_prefix_def)
qed

text \<open>
  C7. The claim is that the token is the header without one leading "Bearer ", or the
  header itself when it does not start with it. The code removes every "Bearer " of the
  header: from the header "Bearer session_Bearer x_1700000000.5" it extracts
  "session_x_1700000000.5" where the claim gives "session_Bearer x_1700000000.5", and
  from "Token Bearer abc" it extracts "Token abc" where the claim leaves the header
  unchanged.
\<close>

theorem auth_token_removes_every_bearer:
  "auth_token (get_with (Some ''Bearer session_Bearer x_1700000000.5'')) = ''session_x_1700000000.5'' \<and>
   spec_strip_bearer_prefix ''Bearer session_Bearer x_1700000000.5'' = ''session_Bearer x_1700000000.5'' \<and>
   auth_token (get_with (Some ''Token Bearer abc'')) = ''Token abc'' \<and>
   spec_strip_bearer_prefix ''Token Bearer abc'' = ''Token Bearer abc''"
  by (simp add: auth_token_def get_with_def spec_strip_bearer_prefix_def)

text \<open>
  C10. The claim is that every issued token authenticates when sent as the raw header.
  The token issued for the user id "Bearer x" is stored in \<^verbatim>\<open>sessions\<close>, and the
  session check and the user profile answer the raw token with 401, because the
  extraction removes the "Bearer " inside it.
\<close>

theorem raw_token_with_bearer_rejected:
  "data_field (projr (snd login_bearer)) ''session_token''
     = Some (JStr ''session_Bearer x_1700000000.5'') \<and>
   sessions (fst login_bearer) ''session_Bearer x_1700000000.5''
     = Some (new_session (JStr ''Bearer x'') (JStr ''unknown'') (clock_a 1)) \<and>
   session clock_b (get_with (Some ''session_Bearer x_1700000000.5'')) (fst login_bearer)
     = (fst login_bearer, unauthorized (create_response (clock_b 0) False None ''Invalid session'')) \<and>
   user_profile clock_b (get_with (Some ''session_Bearer x_1700000000.5'')) (fst login_bearer)
     = (fst login_bearer, unauthorized (create_response (clock_b 0) False None ''Unauthorized''))"
  by (simp add: login_bearer_def handler_defs example_defs data_field_def)

section \<open>The login handler\<close>

lemma users_keyed_handle:
  assumes "users_keyed st"
  shows "users_keyed (fst (handle cs ep now req st))"
proof (cases "ep = Login")
  case False
  then show ?thesis using assms by (simp add: handle_other_store)
next
  case True
  from login_users [of cs now req st] show ?thesis
  proof
    assume "users (fst (login cs now req st)) = users st"
    then show ?thesis using assms True by (simp add: users_keyed_def handle_def)
  next
    assume "\<exists>device_id user_id k. py_hash_key user_id = Inr k \<and> users st k = None \<and>
      users (fst (login cs now req st)) = (users st)(k \<mapsto> new_user user_id device_id (now 2))"
    then show ?thesis using assms True
      by (auto simp: users_keyed_def handle_def new_user_def split: if_splits)
  qed
qed

lemma users_keyed_run:
  "users_keyed st \<Longrightarrow> users_keyed (run cs calls st)"
proof (induction calls arbitrary: st)
  case Nil
  then show ?case by simp
next
  case (Cons c calls)
  obtain ep now req where c: "c = (ep, now, req)" by (cases c)
  from Cons.prems have "users_keyed (fst (handle cs ep now req st))"
    by (rule users_keyed_handle)
  then show ?case
    using Cons.IH c by simp
qed

lemma users_keyed_empty: "users_keyed empty_store"
  by (simp add: users_keyed_def empty_store_def)

text \<open>
  C3, as amended. On every store reached from the empty one, when a login returns a
  response: if the body was declared as JSON, it is an object, and the \<^verbatim>\<open>user_id\<close> of
  the returned user record is the body's \<^verbatim>\<open>user_id\<close>, else its \<^verbatim>\<open>device_id\<close>, else
  "unknown" -- or both are a boolean, an integer or a float of the same numeric value,
  which are the same key of \<^verbatim>\<open>users\<close>; if the body was not declared as JSON, the
  \<^verbatim>\<open>user_id\<close> of the record is "unknown".
\<close>

theorem login_user_id:
  assumes "st = run cs calls empty_store"
    and "login cs now req st = (st', Inr r)"
  shows "\<exists>u uid. data_field r ''user'' = Some (JObj u) \<and> map_of u ''user_id'' = Some uid \<and>
           ((req_body req = NoJson \<and> uid = JStr ''unknown'') \<or>
            (\<exists>d. req_body req = Json (JObj d) \<and>
               (uid = requested_user_id d \<or>
                (\<exists>q. py_hash_key uid = Inr (KNum q) \<and>
                     py_hash_key (requested_user_id d) = Inr (KNum q)))))"
proof -
  have keyed: "users_keyed st"
    using assms(1) users_keyed_empty by (simp add: users_keyed_run)
  from login_returns [OF assms(2)] obtain device_id user_id k u tok n where
    ids: "login_ids (req_body req) = Inr (device_id, user_id)"
    and k: "py_hash_key user_id = Inr k"
    and u: "u = (case users st k of None \<Rightarrow> new_user user_id device_id (now 2) | Some u' \<Rightarrow> u')"
    and r: "login_response (now n) tok u = Inr r"
    by blast
  have user: "data_field r ''user'' = Some (JObj u)"
    by (rule login_response_fields(5) [OF r])
  obtain uid where uid: "map_of u ''user_id'' = Some uid" "py_hash_key uid = Inr k"
  proof (cases "users st k")
    case None
    then have "map_of u ''user_id'' = Some user_id"
      using u by (simp add: new_user_def)
    with k that show ?thesis by blast
  next
    case (Some u')
    with keyed obtain v where "map_of u' ''user_id'' = Some v" "py_hash_key v = Inr k"
      by (auto simp: users_keyed_def)
    with Some u that show ?thesis by simp
  qed
  from py_hash_key_same [OF uid(2) k] have same: "uid = user_id \<or> (\<exists>q. k = KNum q)" .
  from login_ids_requested [OF ids] show ?thesis
  proof
    assume nj: "req_body req = NoJson \<and> user_id = requested_user_id []"
    then have "user_id = JStr ''unknown''"
      by (simp add: requested_user_id_def)
    with same k have "uid = JStr ''unknown''"
      by auto
    with nj user uid(1) show ?thesis by blast
  next
    assume "\<exists>d. req_body req = Json (JObj d) \<and> user_id = requested_user_id d"
    then obtain d where d: "req_body req = Json (JObj d)" "user_id = requested_user_id d"
      by blast
    from same show ?thesis
    proof
      assume "uid = user_id"
      with d user uid(1) show ?thesis by blast
    next
      assume "\<exists>q. k = KNum q"
      then obtain q where "k = KNum q" by blast
      with uid(2) k d have "py_hash_key uid = Inr (KNum q)"
        "py_hash_key (requested_user_id d) = Inr (KNum q)"
        by simp_all
      with d user uid(1) show ?thesis by blast
    qed
  qed
qed

theorem login_user_id_witness:
  "\<exists>r. empty_store = run empty_container_str [] empty_store \<and>
     (\<exists>st'. login empty_container_str clock_a (post_json (JObj [(''device_id'', JStr ''d7'')]))
              empty_store = (st', Inr r)) \<and>
     (\<exists>u uid. data_field r ''user'' = Some (JObj u) \<and> map_of u ''user_id'' = Some uid \<and>
        ((req_body (post_json (JObj [(''device_id'', JStr ''d7'')])) = NoJson \<and>
          uid = JStr ''unknown'') \<or>
         (\<exists>d. req_body (post_json (JObj [(''device_id'', JStr ''d7'')])) = Json (JObj d) \<and>
            (uid = requested_user_id d \<or>
             (\<exists>q. py_hash_key uid = Inr (KNum q) \<and>
                  py_hash_key (requested_user_id d) = Inr (KNum q)))))) \<and>
     requested_user_id [(''device_id'', JStr ''d7'')] = JStr ''d7''"
proof -
  have s: "empty_store = run empty_container_str [] empty_store"
    by simp
  obtain st' r where
    l: "login empty_container_str clock_a (post_json (JObj [(''device_id'', JStr ''d7'')]))
          empty_store = (st', Inr r)"
    by (simp add: handler_defs example_defs)
  have q: "requested_user_id [(''device_id'', JStr ''d7'')] = JStr ''d7''"
    by (simp add: requested_user_id_def)
  from login_user_id [OF s l] s l q show ?thesis
    by blast
qed

text \<open>
  C3 as stated fails: a login whose body is \<^verbatim>\<open>{"user_id": []}\<close> raises TypeError after
  storing the session and returns no user record, and after a login with \<^verbatim>\<open>user_id\<close> 1
  a login with \<^verbatim>\<open>user_id\<close> true returns the record whose \<^verbatim>\<open>user_id\<close> is 1, as
  after a login with \<^verbatim>\<open>user_id\<close> 1.0 it returns the record whose \<^verbatim>\<open>user_id\<close> is 1.0.
\<close>

theorem login_user_id_counterexample:
  "login empty_container_str clock_a (post_json (JObj [(''user_id'', JArr [])])) empty_store
     = (\<lparr>users = Map.empty,
         sessions = [''session_[]_1700000000.5'' \<mapsto>
                       new_session (JArr []) (JStr ''unknown'') (clock_a 1)]\<rparr>,
        Inl TypeError) \<and>
   snd (login empty_container_str clock_b (post_json (JObj [(''user_id'', JBool True)])) (fst login_one))
     = login_response (clock_b 2) ''session_True_1700000001.25''
         (new_user (JInt 1) (JStr ''unknown'') (clock_a 2)) \<and>
   requested_user_id [(''user_id'', JBool True)] = JBool True \<and>
   map_of (new_user (JInt 1) (JStr ''unknown'') (clock_a 2)) ''user_id'' = Some (JInt 1) \<and>
   snd (login float_one_str clock_b (post_json (JObj [(''user_id'', JBool True)]))
          (fst login_float_one))
     = login_response (clock_b 2) ''session_True_1700000001.25''
         (new_user (JFloat (Finite 1)) (JStr ''unknown'') (clock_a 2))"
  by (simp add: login_one_def login_float_one_def float_one_str_def handler_defs example_defs
        requested_user_id_def)

text \<open>
  C4, as amended. When two logins in a row return a response and ask for the same user
  id, the second returns the user record of the first and leaves \<^verbatim>\<open>users\<close> as the
  first left it, and the two tokens differ exactly when the two clock readings taken for
  the tokens print differently.
\<close>

theorem login_twice:
  assumes "login cs now1 req1 st = (st1, Inr r1)"
    and "login cs now2 req2 st1 = (st2, Inr r2)"
    and "login_ids (req_body req1) = Inr (d1, uid)"
    and "login_ids (req_body req2) = Inr (d2, uid)"
  shows "data_field r2 ''user'' = data_field r1 ''user'' \<and> users st2 = users st1 \<and>
         (\<exists>t1 t2. data_field r1 ''session_token'' = Some (JStr t1) \<and>
                  data_field r2 ''session_token'' = Some (JStr t2) \<and>
                  (t1 \<noteq> t2) = (timestamp_str (now1 0) \<noteq> timestamp_str (now2 0)))"
proof -
  from login_returns [OF assms(1)] assms(3) obtain k u1 t1 n1 where
    k: "py_hash_key uid = Inr k"
    and t1: "t1 = ''session_'' @ py_str cs uid @ ''_'' @ timestamp_str (now1 0)"
    and us1: "users st1 = (users st)(k \<mapsto> u1)"
    and r1: "login_response (now1 n1) t1 u1 = Inr r1"
    by auto
  from login_returns [OF assms(2)] assms(4) k obtain u2 t2 n2 where
    t2: "t2 = ''session_'' @ py_str cs uid @ ''_'' @ timestamp_str (now2 0)"
    and us2: "users st2 = (users st1)(k \<mapsto> u2)"
    and u2: "u2 = (case users st1 k of None \<Rightarrow> new_user uid d2 (now2 2) | Some u' \<Rightarrow> u')"
    and r2: "login_response (now2 n2) t2 u2 = Inr r2"
    by auto
  have same: "u2 = u1"
    using u2 us1 by simp
  have "users st2 = users st1"
    using us2 us1 same by simp
  moreover have "data_field r2 ''user'' = data_field r1 ''user''"
    using login_response_fields(5) [OF r1] login_response_fields(5) [OF r2] same by simp
  moreover have "(t1 \<noteq> t2) = (timestamp_str (now1 0) \<noteq> timestamp_str (now2 0))"
    using t1 t2 by simp
  ultimately show ?thesis
    using login_response_fields(4) [OF r1] login_response_fields(4) [OF r2] by blast
qed

theorem login_twice_witness:
  "\<exists>st1 r1 st2 r2.
     login empty_container_str clock_a (post_json (JObj [(''user_id'', JStr ''p1'')])) empty_store
       = (st1, Inr r1) \<and>
     login empty_container_str clock_b
       (post_json (JObj [(''user_id'', JStr ''p1''), (''device_id'', JStr ''d7'')])) st1
       = (st2, Inr r2) \<and>
     login_ids (req_body (post_json (JObj [(''user_id'', JStr ''p1'')])))
       = Inr (JStr ''unknown'', JStr ''p1'') \<and>
     login_ids (req_body (post_json (JObj [(''user_id'', JStr ''p1''), (''device_id'', JStr ''d7'')])))
       = Inr (JStr ''d7'', JStr ''p1'') \<and>
     data_field r2 ''user'' = data_field r1 ''user'' \<and> users st2 = users st1 \<and>
     (\<exists>t1 t2. data_field r1 ''session_token'' = Some (JStr t1) \<and>
              data_field r2 ''session_token'' = Some (JStr t2) \<and>
              (t1 \<noteq> t2) = (timestamp_str (clock_a 0) \<noteq> timestamp_str (clock_b 0))) \<and>
     timestamp_str (clock_a 0) \<noteq> timestamp_str (clock_b 0)"
proof -
  obtain st1 r1 where
    l1: "login empty_container_str clock_a (post_json (JObj [(''user_id'', JStr ''p1'')])) empty_store
           = (st1, Inr r1)"
    by (simp add: handler_defs example_defs)
  obtain st2 r2 where
    l2: "login empty_container_str clock_b
           (post_json (JObj [(''user_id'', JStr ''p1''), (''device_id'', JStr ''d7'')])) st1
           = (st2, Inr r2)"
    using login_succeeds [of _ "JStr ''d7''" "JStr ''p1''" "KStr ''p1''"]
    by (fastforce simp: login_ids_def request_data_def json_get_def dict_get_def post_json_def)
  have i1: "login_ids (req_body (post_json (JObj [(''user_id'', JStr ''p1'')])))
              = Inr (JStr ''unknown'', JStr ''p1'')"
    by (simp add: handler_defs example_defs)
  have i2: "login_ids (req_body (post_json (JObj [(''user_id'', JStr ''p1''), (''device_id'', JStr ''d7'')])))
              = Inr (JStr ''d7'', JStr ''p1'')"
    by (simp add: handler_defs example_defs)
  have c: "timestamp_str (clock_a 0) \<noteq> timestamp_str (clock_b 0)"
    by (simp add: example_defs)
  from login_twice [OF l1 l2 i1 i2] l1 l2 i1 i2 c show ?thesis
    by blast
qed

text \<open>
  C4 as stated fails: two logins for "p1" whose clock readings are the same return the
  same token.
\<close>

theorem login_twice_counterexample:
  "data_field (projr (snd login_p1)) ''session_token'' = Some (JStr ''session_p1_1700000000.5'') \<and>
   data_field
     (projr (snd (login empty_container_str clock_a (post_json (JObj [(''user_id'', JStr ''p1'')]))
                    (fst login_p1))))
     ''session_token'' = Some (JStr ''session_p1_1700000000.5'')"
  by (simp add: login_p1_def handler_defs example_defs data_field_def)

text \<open>
  The defaults of the login handler: on every store reached from the empty one, a login
  whose body is not declared as JSON, or is a JSON object with neither \<^verbatim>\<open>user_id\<close> nor
  \<^verbatim>\<open>device_id\<close>, returns status 200 with \<^verbatim>\<open>success = true\<close>, the token
  "session_unknown_" followed by the clock reading, and a user record whose
  \<^verbatim>\<open>user_id\<close> is "unknown".
\<close>

lemma login_defaults:
  assumes "st = run cs calls empty_store"
    and "req_body req = NoJson \<or>
         (\<exists>d. req_body req = Json (JObj d) \<and> map_of d ''user_id'' = None \<and>
              map_of d ''device_id'' = None)"
  shows "\<exists>st' r u. login cs now req st = (st', Inr r) \<and> http_status r = 200 \<and>
           resp_field r ''success'' = Some (JBool True) \<and>
           data_field r ''session_token'' =
             Some (JStr (''session_unknown_'' @ timestamp_str (now 0))) \<and>
           data_field r ''user'' = Some (JObj u) \<and>
           map_of u ''user_id'' = Some (JStr ''unknown'')"
proof -
  have keyed: "users_keyed st"
    using assms(1) users_keyed_empty by (simp add: users_keyed_run)
  have ids: "login_ids (req_body req) = Inr (JStr ''unknown'', JStr ''unknown'')"
    using assms(2)
    by (auto simp: login_ids_def request_data_def json_get_def dict_get_def)
  have k: "py_hash_key (JStr ''unknown'') = Inr (KStr ''unknown'')"
    by simp
  from login_succeeds [OF ids k] obtain st' r where l: "login cs now req st = (st', Inr r)"
    by blast
  from login_returns [OF l] ids obtain u tok n where
    tok: "tok = ''session_'' @ py_str cs (JStr ''unknown'') @ ''_'' @ timestamp_str (now 0)"
    and u: "u = (case users st (KStr ''unknown'') of
                   None \<Rightarrow> new_user (JStr ''unknown'') (JStr ''unknown'') (now 2)
                 | Some u' \<Rightarrow> u')"
    and r: "login_response (now n) tok u = Inr r"
    by auto
  have uid: "map_of u ''user_id'' = Some (JStr ''unknown'')"
  proof (cases "users st (KStr ''unknown'')")
    case None
    then show ?thesis using u by (simp add: new_user_def)
  next
    case (Some u')
    with keyed obtain v where v: "map_of u' ''user_id'' = Some v" "py_hash_key v = Inr (KStr ''unknown'')"
      by (auto simp: users_keyed_def)
    from py_hash_key_same [OF v(2) k] have "v = JStr ''unknown''"
      by simp
    then show ?thesis using Some u v by simp
  qed
  have "tok = ''session_unknown_'' @ timestamp_str (now 0)"
    using tok by (simp add: py_str_def)
  then show ?thesis
    using l uid login_response_fields [OF r] by blast
qed

theorem login_defaults_witness:
  "run empty_container_str [] empty_store = empty_store \<and> req_body post_no_json = NoJson \<and>
   (\<exists>st' r u. login empty_container_str clock_a post_no_json empty_store = (st', Inr r) \<and>
      http_status r = 200 \<and> resp_field r ''success'' = Some (JBool True) \<and>
      data_field r ''session_token'' = Some (JStr ''session_unknown_1700000000.5'') \<and>
      data_field r ''user'' = Some (JObj u) \<and> map_of u ''user_id'' = Some (JStr ''unknown''))"
proof -
  have s: "empty_store = run empty_container_str [] empty_store"
    by simp
  have b: "req_body post_no_json = NoJson"
    by (simp add: post_no_json_def)
  have t: "timestamp_str (clock_a 0) = ''1700000000.5''"
    by (simp add: example_defs)
  from login_defaults [OF s disjI1, OF b, of clock_a] b t show ?thesis
    by simp
qed

text \<open>
  C6. The claim is that a malformed body is absorbed by the defaults and the login
  succeeds for every body. On every store and with every clock, a body declared as JSON
  that does not parse makes the login raise BadRequest, which the client receives as
  status 400, and a JSON string makes it raise AttributeError, which the client
  receives as status 500; the store is left as it was.
\<close>

theorem malformed_body_login_raises:
  "login cs now (req\<lparr>req_body := BadJson\<rparr>) st = (st, Inl BadRequest) \<and>
   error_status BadRequest = 400 \<and>
   login cs now (req\<lparr>req_body := Json (JStr s)\<rparr>) st = (st, Inl AttributeError) \<and>
   error_status AttributeError = 500"
  by (simp add: login_def login_ids_def request_data_def json_get_def error_status_def)

section \<open>Sessions and their users\<close>

lemma sessions_have_users_login:
  assumes "login cs now req st = (st', Inr r)" and "sessions_have_users st"
  shows "sessions_have_users st'"
proof -
  from login_returns [OF assms(1)] obtain device_id user_id k u tok where
    k: "py_hash_key user_id = Inr k"
    and s: "sessions st' = (sessions st)(tok \<mapsto> new_session user_id device_id (now 1))"
    and us: "users st' = (users st)(k \<mapsto> u)"
    by blast
  show ?thesis
    unfolding sessions_have_users_def
  proof (intro allI impI)
    fix tok' sd
    assume sd: "sessions st' tok' = Some sd"
    show "\<exists>uid k. map_of sd ''user_id'' = Some uid \<and> py_hash_key uid = Inr k \<and> users st' k \<noteq> None"
    proof (cases "tok' = tok")
      case True
      with sd s have "sd = new_session user_id device_id (now 1)"
        by simp
      then have "map_of sd ''user_id'' = Some user_id"
        by (simp add: new_session_def)
      with k us show ?thesis
        by auto
    next
      case False
      with sd s have old: "sessions st tok' = Some sd"
        by simp
      from assms(2) old obtain uid k' where
        "map_of sd ''user_id'' = Some uid" "py_hash_key uid = Inr k'" "users st k' \<noteq> None"
        unfolding sessions_have_users_def by blast
      with us show ?thesis
        by auto
    qed
  qed
qed

lemma sessions_have_users_handle:
  assumes "\<not> (ep = Login \<and> snd (handle cs ep now req st) = Inl TypeError)"
    and "sessions_have_users st"
  shows "sessions_have_users (fst (handle cs ep now req st))"
proof (cases "ep = Login")
  case False
  from handle_other_store [OF False, of cs now req st] assms(2) show ?thesis
    by simp
next
  case True
  obtain st' res where l: "login cs now req st = (st', res)"
    by (cases "login cs now req st")
  show ?thesis
  proof (cases res)
    case (Inl e)
    with l assms(1) True have "e \<noteq> TypeError"
      by (simp add: handle_def)
    with login_raises [of cs now req st st' e] l Inl have "st' = st"
      by simp
    with l True assms(2) show ?thesis
      by (simp add: handle_def)
  next
    case (Inr r)
    with l assms(2) have "sessions_have_users st'"
      by (auto intro: sessions_have_users_login)
    with l True show ?thesis
      by (simp add: handle_def)
  qed
qed

lemma sessions_have_users_run:
  "sessions_have_users st \<Longrightarrow> no_login_type_error cs calls st \<Longrightarrow>
   sessions_have_users (run cs calls st)"
proof (induction calls arbitrary: st)
  case Nil
  then show ?case by simp
next
  case (Cons c calls)
  obtain ep now req where c: "c = (ep, now, req)" by (cases c)
  from Cons.prems(2) c
  have ok: "\<not> (ep = Login \<and> snd (handle cs ep now req st) = Inl TypeError)"
    and rest: "no_login_type_error cs calls (fst (handle cs ep now req st))"
    by simp_all
  from ok Cons.prems(1) have "sessions_have_users (fst (handle cs ep now req st))"
    by (rule sessions_have_users_handle)
  from Cons.IH [OF this rest] c show ?case
    by simp
qed

text \<open>
  C8, as amended. Starting from the empty stores, after a sequence of handler calls in
  which no login raised TypeError (no login was given a list or a dict as user id),
  every session's user id is a key of \<^verbatim>\<open>users\<close>; calls answered 400, 401 or 500 for
  another reason do not matter.
\<close>

theorem sessions_have_users_reachable:
  assumes "no_login_type_error cs calls empty_store"
  shows "sessions_have_users (run cs calls empty_store)"
proof -
  have "sessions_have_users empty_store"
    by (simp add: sessions_have_users_def empty_store_def)
  then show ?thesis
    using assms by (rule sessions_have_users_run)
qed

theorem sessions_have_users_reachable_witness:
  "no_login_type_error empty_container_str mixed_calls empty_store \<and>
   sessions_have_users (run empty_container_str mixed_calls empty_store) \<and>
   snd (handle empty_container_str Login clock_a post_bad_json empty_store) = Inl BadRequest \<and>
   sessions (run empty_container_str mixed_calls empty_store) ''session_p1_1700000000.5'' \<noteq> None"
proof -
  have a: "no_login_type_error empty_container_str mixed_calls empty_store"
    by (simp add: mixed_calls_def handle_def handler_defs example_defs)
  have b: "snd (handle empty_container_str Login clock_a post_bad_json empty_store) = Inl BadRequest"
    by (simp add: handle_def handler_defs example_defs)
  have s: "sessions (run empty_container_str mixed_calls empty_store) ''session_p1_1700000000.5'' \<noteq> None"
    by (simp add: mixed_calls_def handle_def handler_defs example_defs)
  from sessions_have_users_reachable [OF a] a b s show ?thesis
    by simp
qed

text \<open>
  C8 as stated fails: a login whose body is \<^verbatim>\<open>{"user_id": []}\<close> stores the session and
  then raises TypeError; the home route called next returns, and the store holds a
  session whose user id is no key of \<^verbatim>\<open>users\<close>.
\<close>

theorem sessions_have_users_counterexample:
  "snd (handle empty_container_str Home clock_b (get_with None)
          (fst (handle empty_container_str Login clock_a
                  (post_json (JObj [(''user_id'', JArr [])])) empty_store)))
     = ok (create_response (clock_b 0) True None ''Wibble Wobble Private Server - Running'') \<and>
   \<not> sessions_have_users (run empty_container_str crashed_login_calls empty_store)"
proof -
  have dangling:
    "sessions (run empty_container_str crashed_login_calls empty_store) ''session_[]_1700000000.5''
       = Some (new_session (JArr []) (JStr ''unknown'') (clock_a 1))"
    by (simp add: crashed_login_calls_def handle_def home_def handler_defs example_defs)
  have "\<not> sessions_have_users (run empty_container_str crashed_login_calls empty_store)"
  proof
    assume "sessions_have_users (run empty_container_str crashed_login_calls empty_store)"
    with dangling obtain uid k where
      "map_of (new_session (JArr []) (JStr ''unknown'') (clock_a 1)) ''user_id'' = Some uid"
      and "py_hash_key uid = Inr k"
      unfolding sessions_have_users_def by blast
    then show False
      by (auto simp: new_session_def)
  qed
  then show ?thesis
    by (simp add: handle_def home_def handler_defs example_defs)
qed

end
